theory Spec2Isabelle
  imports Main "HOL-Library.Multiset" "HOL-Library.Product_Lexorder" "HOL-Library.List_Lexorder"
    "HOL-Library.Finite_Map"
begin

section \<open>The data layer of sherpa: a shallow embedding of database.go\<close>

text \<open>
  The Go program keeps all of its state in a MariaDB database reached through the
  package-level handle \<open>db\<close>. The embedding passes that state explicitly: every
  function takes the store and returns the store it leaves behind, next to the value or
  the error the Go function returns. A Go \<open>error\<close> is a value of the datatype
  \<open>error\<close> below, one constructor for each \<open>fmt.Errorf\<close> of the source and for
  each error the driver hands back; \<open>nil\<close> is \<open>None\<close>.
\<close>

subsection \<open>Errors\<close>

type_synonym db_error = string

datatype error =
    InvalidTableName string
      \<comment> \<open>\<open>"invalid table name: %s"\<close>\<close>
  | InvalidColumnName string
      \<comment> \<open>\<open>"invalid column name: %s"\<close>\<close>
  | InvalidColumnType string
      \<comment> \<open>\<open>"invalid characters in column type: %s"\<close>\<close>
  | AlterFailed string db_error string
      \<comment> \<open>\<open>"failed to alter table %s: %w. Query: %s"\<close>\<close>
  | ErrNoRows
      \<comment> \<open>\<open>sql.ErrNoRows\<close>\<close>
  | ScanNull string
      \<comment> \<open>\<open>Scan\<close> of a NULL column into a Go \<open>string\<close>; the argument is the column\<close>
  | StoreError db_error
      \<comment> \<open>an error of the driver returned as it is\<close>
  | CreateEntityFailed db_error
      \<comment> \<open>\<open>"failed to create entity for piece: %w"\<close>\<close>
  | InsertPieceFailed db_error
      \<comment> \<open>\<open>"failed to insert into content_piece: %w"\<close>\<close>
  | UpdatePieceFailed int db_error
      \<comment> \<open>\<open>"failed to update content_piece with id %d: %w"\<close>\<close>

subsection \<open>Identifiers\<close>

text \<open>
  \<open>validIdentifier\<close> matches its argument against the regular expression
  \<open>^[a-zA-Z_][a-zA-Z0-9_]*$\<close>. Go strings are byte sequences and the classes of the
  expression are ASCII, so a \<open>char\<close> (a byte) is the right unit; in Go's syntax
  \<open>$\<close> matches at the end of the text only.
\<close>

definition isLetter :: "char \<Rightarrow> bool" where
  "isLetter c =
     (let n = (of_char c :: nat) in (65 \<le> n \<and> n \<le> 90) \<or> (97 \<le> n \<and> n \<le> 122))"

definition isDigit :: "char \<Rightarrow> bool" where
  "isDigit c = (let n = (of_char c :: nat) in 48 \<le> n \<and> n \<le> 57)"

definition identStart :: "char \<Rightarrow> bool" where
  "identStart c = (isLetter c \<or> c = CHR ''_'')"

definition identRest :: "char \<Rightarrow> bool" where
  "identRest c = (isLetter c \<or> isDigit c \<or> c = CHR ''_'')"

fun validIdentifier :: "string \<Rightarrow> bool" where
  "validIdentifier [] = False"
| "validIdentifier (c # cs) = (identStart c \<and> list_all identRest cs)"

subsection \<open>Schema changes\<close>

record NullString =
  String :: string
  Valid :: bool

record ColumnDetail =
  Field :: string
  Type :: string
  Null :: string
  Key :: string
  Default :: NullString
  Extra :: string

text \<open>\<open>strings.ContainsAny\<close> and \<open>strings.Join\<close> of the Go library.\<close>

definition strings_ContainsAny :: "string \<Rightarrow> string \<Rightarrow> bool" where
  "strings_ContainsAny s chars = list_ex (\<lambda>c. c \<in> set chars) s"

fun strings_Join :: "string list \<Rightarrow> string \<Rightarrow> string" where
  "strings_Join [] sep = []"
| "strings_Join [x] sep = x"
| "strings_Join (x # y # ys) sep = x @ sep @ strings_Join (y # ys) sep"

text \<open>The characters a column type may not contain: \<open>;\<close> \<open>)\<close> \<open>'\<close> and the double quote.\<close>

definition typeForbidden :: string where
  "typeForbidden = [CHR '';'', CHR '')'', CHR 0x27, CHR 0x22]"

text \<open>
  The body of the loop of \<open>updateTableSchema\<close> after its two checks: the clause of one
  column, built by \<open>fmt.Sprintf\<close> and string concatenation.
\<close>

definition columnClause :: "ColumnDetail \<Rightarrow> string" where
  "columnClause col =
     (let clause = ''MODIFY COLUMN `'' @ Field col @ ''` '' @ Type col;
          clause = (if Null col = ''NO'' then clause @ '' NOT NULL'' else clause @ '' NULL'');
          clause = (if Valid (Default col) \<and> String (Default col) \<noteq> ''''
                    then clause @ '' DEFAULT '' @ [CHR 0x27] @ String (Default col) @ [CHR 0x27]
                    else clause);
          clause = (if Extra col \<noteq> '''' then clause @ '' '' @ Extra col else clause)
      in clause)"

text \<open>
  The loop over the columns, with \<open>alterClauses\<close> as its accumulator: it returns at the
  first column whose name or type is refused.
\<close>

fun alterClauses :: "ColumnDetail list \<Rightarrow> string list \<Rightarrow> error + string list" where
  "alterClauses [] acc = Inr acc"
| "alterClauses (col # cols) acc =
     (if \<not> validIdentifier (Field col) then Inl (InvalidColumnName (Field col))
      else if strings_ContainsAny (Type col) typeForbidden then Inl (InvalidColumnType (Type col))
      else alterClauses cols (acc @ [columnClause col]))"

text \<open>
  \<open>db.Exec(query)\<close> is the one place where \<open>updateTableSchema\<close> reaches the database.
  What MariaDB does with an \<open>ALTER TABLE\<close> statement is not part of the program, so the
  engine is a parameter: \<open>exec query s\<close> is the error, if any, and the store after the
  statement.
\<close>

type_synonym 's engine = "string \<Rightarrow> 's \<Rightarrow> db_error option \<times> 's"

definition updateTableSchema ::
  "'s engine \<Rightarrow> 's \<Rightarrow> string \<Rightarrow> ColumnDetail list \<Rightarrow> error option \<times> 's" where
  "updateTableSchema exec s tableName columns =
     (if \<not> validIdentifier tableName then (Some (InvalidTableName tableName), s)
      else case alterClauses columns [] of
        Inl e \<Rightarrow> (Some e, s)
      | Inr clauses \<Rightarrow>
          if length clauses = 0 then (None, s)
          else
            (let query = ''ALTER TABLE `'' @ tableName @ ''` '' @ strings_Join clauses '', ''
             in (case exec query s of
                   (None, s') \<Rightarrow> (None, s')
                 | (Some err, s') \<Rightarrow> (Some (AlterFailed tableName err query), s'))))"

text \<open>
  An engine for running the model on concrete submissions: it accepts every statement and
  keeps the list of the statements it was given.
\<close>

definition recording :: "string list engine" where
  "recording query executed = (None, executed @ [query])"

definition column :: "string \<Rightarrow> string \<Rightarrow> string \<Rightarrow> string \<Rightarrow> string \<Rightarrow> ColumnDetail" where
  "column field ty null dflt extra =
     \<lparr>Field = field, Type = ty, Null = null, Key = '''',
      Default = \<lparr>String = dflt, Valid = (dflt \<noteq> '''')\<rparr>, Extra = extra\<rparr>"

subsection \<open>The handler of the schema form\<close>

text \<open>
  \<open>updateSchemaHandler\<close> of handlers.go builds the columns from the fields of the
  posted form and hands them to \<open>updateTableSchema\<close>. The request is the method, the
  path, the outcome of \<open>ParseForm\<close> and the parsed form \<open>r.Form\<close>, a finite map from
  a key to its values.
\<close>

record request =
  Method :: string
  Path :: string
  ParseFormError :: "string option"
  Form :: "(string, string list) fmap"

datatype response =
    MethodNotAllowed
      \<comment> \<open>status 405\<close>
  | BadRequest string
      \<comment> \<open>status 400, \<open>"Failed to parse form: "\<close> and the error\<close>
  | InternalServerError error
      \<comment> \<open>status 500, \<open>"Failed to update schema: "\<close> and the error\<close>
  | Found string
      \<comment> \<open>status 302, the redirect to the location\<close>

text \<open>\<open>r.FormValue\<close>: the first value of the key, the empty string when there is none.\<close>

definition FormValue :: "request \<Rightarrow> string \<Rightarrow> string" where
  "FormValue r key = (case fmlookup (Form r) key of Some (v # vs) \<Rightarrow> v | _ \<Rightarrow> [])"

text \<open>\<open>fmt.Sprintf("%d", i)\<close> for an \<open>i\<close> that is not negative.\<close>

fun showNat :: "nat \<Rightarrow> string" where
  "showNat n =
     (if n < 10 then [''0123456789'' ! n] else showNat (n div 10) @ [''0123456789'' ! (n mod 10)])"

declare showNat.simps [simp del]

text \<open>\<open>fmt.Sprintf("col_%d_field", i)\<close> and the keys of the other parts of a column.\<close>

definition colKey :: "nat \<Rightarrow> string \<Rightarrow> string" where
  "colKey i part = ''col_'' @ showNat i @ ''_'' @ part"

definition strings_TrimPrefix :: "string \<Rightarrow> string \<Rightarrow> string" where
  "strings_TrimPrefix s prefix =
     (if take (length prefix) s = prefix then drop (length prefix) s else s)"

definition formColumn :: "request \<Rightarrow> nat \<Rightarrow> ColumnDetail" where
  "formColumn r i =
     (let col = \<lparr>Field = FormValue r (colKey i ''field''),
                 Type = FormValue r (colKey i ''type''),
                 Null = FormValue r (colKey i ''null''),
                 Key = FormValue r (colKey i ''key''),
                 Default = \<lparr>String = [], Valid = False\<rparr>,
                 Extra = FormValue r (colKey i ''extra'')\<rparr>;
          defaultVal = FormValue r (colKey i ''default'')
      in if defaultVal \<noteq> [] then col\<lparr>Default := \<lparr>String = defaultVal, Valid = True\<rparr>\<rparr> else col)"

text \<open>
  The loop \<open>for i := 0; ; i++\<close> has no bound of its own: it runs until the form has no
  key \<open>col_i_field\<close>. It ends because the form has finitely many keys and the keys of
  different \<open>i\<close> are different; the proof is with the properties of the handler below.
\<close>

function formColumns :: "request \<Rightarrow> nat \<Rightarrow> ColumnDetail list \<Rightarrow> ColumnDetail list" where
  "formColumns r i columns =
     (if fmlookup (Form r) (colKey i ''field'') = None then columns
      else formColumns r (i + 1) (columns @ [formColumn r i]))"
  by pat_completeness auto

definition updateSchemaHandler :: "'s engine \<Rightarrow> 's \<Rightarrow> request \<Rightarrow> response \<times> 's" where
  "updateSchemaHandler exec s r =
     (if Method r \<noteq> ''POST'' then (MethodNotAllowed, s)
      else
        (let tableName = strings_TrimPrefix (Path r) ''/schema/''
         in case ParseFormError r of
              Some err \<Rightarrow> (BadRequest err, s)
            | None \<Rightarrow>
               (let columns = formColumns r 0 []
                in case updateTableSchema exec s tableName columns of
                     (Some err, s') \<Rightarrow> (InternalServerError err, s')
                   | (None, s') \<Rightarrow> (Found ''/schema'', s'))))"

text \<open>The POST of a form with one value for each key to \<open>/schema/\<close> and the table.\<close>

definition post_schema :: "string \<Rightarrow> (string \<times> string) list \<Rightarrow> request" where
  "post_schema table pairs =
     \<lparr>Method = ''POST'', Path = ''/schema/'' @ table, ParseFormError = None,
      Form = fmap_of_list (map (\<lambda>(k, v). (k, [v])) pairs)\<rparr>"

subsection \<open>The store\<close>

text \<open>
  The tables of the schema that database.go creates from architecture.md, with the columns
  the functions below read or write. A table whose primary key is its \<open>id\<close> is a map
  from the id to the rest of the row; the other tables are lists of rows in insertion
  order. A column that may be NULL is an \<open>option\<close>.
\<close>

record content_piece_row =
  cp_class :: string
  cp_title :: "string option"

record cpc_row =
  content_piece_id :: int
  contlet_id :: int
  sort_order :: int

record image_row =
  src :: string
  alt_text :: "string option"

record heading_row =
  text_content :: string
  level :: int

record taxonomy_row =
  tx_id :: int
  name :: string

record tag_row =
  t_id :: int
  taxonomy_id :: int
  t_value :: string

record store =
  entity :: "int list"
  entity_auto_increment :: int
  content_piece :: "int \<rightharpoonup> content_piece_row"
  content_piece_contlets :: "cpc_row list"
  contlet_paragraph :: "int \<rightharpoonup> string"
  contlet_image :: "int \<rightharpoonup> image_row"
  contlet_heading :: "int \<rightharpoonup> heading_row"
  taxonomy :: "taxonomy_row list"
  tag :: "tag_row list"

text \<open>
  Every call on \<open>db\<close> or on a transaction can fail for reasons outside the program (a lost
  connection, a refusal by the server). \<open>faults n\<close> is the error of the \<open>n\<close>-th such
  call of a function, counted from 0 in program order, or \<open>None\<close> when the call goes
  through. A query that goes through delivers all of its rows.
\<close>

type_synonym faults = "nat \<Rightarrow> db_error option"

definition no_faults :: faults where
  "no_faults n = None"

subsection \<open>Listing the tags\<close>

record Tag =
  ID :: int
  Value :: string
  TaxonomyName :: string

text \<open>
  The query of \<open>getAllTags\<close>: \<open>tag\<close> joined with \<open>taxonomy\<close> on
  \<open>t.taxonomy_id = tx.id\<close>, ordered by \<open>tx.name, t.value\<close>. The database compares
  text by the collation of the column, which the program does not fix; \<open>coll\<close> maps a
  text to its sort key under that collation.
\<close>

definition tag_join :: "store \<Rightarrow> (tag_row \<times> taxonomy_row) list" where
  "tag_join s =
     concat (map (\<lambda>t. map (\<lambda>x. (t, x)) (filter (\<lambda>x. taxonomy_id t = tx_id x) (taxonomy s)))
                 (tag s))"

definition tags_query ::
  "(string \<Rightarrow> 'k::linorder) \<Rightarrow> store \<Rightarrow> (int \<times> string \<times> string) list" where
  "tags_query coll s =
     map (\<lambda>(t, x). (t_id t, t_value t, name x))
         (sort_key (\<lambda>(t, x). (coll (name x), coll (t_value t))) (tag_join s))"

text \<open>The loop \<open>for rows.Next()\<close> of \<open>getAllTags\<close>, appending one \<open>Tag\<close> for each row.\<close>

fun scan_tags :: "(int \<times> string \<times> string) list \<Rightarrow> Tag list \<Rightarrow> Tag list" where
  "scan_tags [] tags = tags"
| "scan_tags ((i, v, n) # rows) tags =
     scan_tags rows (tags @ [\<lparr>ID = i, Value = v, TaxonomyName = n\<rparr>])"

definition getAllTags ::
  "(string \<Rightarrow> 'k::linorder) \<Rightarrow> faults \<Rightarrow> store \<Rightarrow> Tag list \<times> error option" where
  "getAllTags coll f s =
     (case f 0 of
        Some err \<Rightarrow> ([], Some (StoreError err))
      | None \<Rightarrow> (scan_tags (tags_query coll s) [], None))"

subsection \<open>Reading a content piece\<close>

record ContletDetail =
  ID :: int
  Class :: string
  TextContent :: string
  Src :: string
  AltText :: string
  Level :: int

record PieceDetail =
  ID :: int
  Class :: string
  Title :: string
  Contlets :: "ContletDetail list"

text \<open>One row of the second query of \<open>getPieceByID\<close>, in the order of its select list.\<close>

record contlet_query_row =
  q_contlet_id :: int
  q_class :: string
  q_cp_text_content :: "string option"
  q_ci_src :: "string option"
  q_ci_alt_text :: "string option"
  q_ch_text_content :: "string option"
  q_ch_level :: "int option"

text \<open>
  The three LEFT JOINs on the primary keys of the variant tables give one row for each
  row of \<open>content_piece_contlets\<close>, with NULLs where a variant table has no row for the
  contlet; the CASE expression names the class.
\<close>

definition contlet_join :: "store \<Rightarrow> cpc_row \<Rightarrow> contlet_query_row" where
  "contlet_join s cpc =
     (let cp = contlet_paragraph s (contlet_id cpc);
          ci = contlet_image s (contlet_id cpc);
          ch = contlet_heading s (contlet_id cpc)
      in \<lparr>q_contlet_id = contlet_id cpc,
          q_class = (if cp \<noteq> None then ''paragraph''
                     else if ci \<noteq> None then ''image''
                     else if ch \<noteq> None then ''heading''
                     else ''unknown''),
          q_cp_text_content = cp,
          q_ci_src = map_option src ci,
          q_ci_alt_text = Option.bind ci alt_text,
          q_ch_text_content = map_option text_content ch,
          q_ch_level = map_option level ch\<rparr>)"

definition piece_edges :: "store \<Rightarrow> int \<Rightarrow> cpc_row list" where
  "piece_edges s pid =
     sort_key sort_order (filter (\<lambda>cpc. content_piece_id cpc = pid) (content_piece_contlets s))"

definition contlets_query :: "store \<Rightarrow> int \<Rightarrow> contlet_query_row list" where
  "contlets_query s pid = map (contlet_join s) (piece_edges s pid)"

text \<open>
  The \<open>String\<close> of a \<open>sql.NullString\<close> and the \<open>Int64\<close> of a \<open>sql.NullInt64\<close>
  after \<open>Scan\<close>: the zero value for NULL.
\<close>

definition nullString :: "string option \<Rightarrow> string" where
  "nullString v = (case v of None \<Rightarrow> [] | Some x \<Rightarrow> x)"

definition nullInt64 :: "int option \<Rightarrow> int" where
  "nullInt64 v = (case v of None \<Rightarrow> 0 | Some x \<Rightarrow> x)"

text \<open>The body of the loop of \<open>getPieceByID\<close>: \<open>rows.Scan\<close> and the switch on the class.\<close>

definition scan_contlet :: "contlet_query_row \<Rightarrow> ContletDetail" where
  "scan_contlet row =
     (let cd = \<lparr>ContletDetail.ID = q_contlet_id row, Class = q_class row,
                TextContent = [], Src = [], AltText = [], Level = 0\<rparr>
      in if ContletDetail.Class cd = ''paragraph''
           then cd\<lparr>TextContent := nullString (q_cp_text_content row)\<rparr>
         else if ContletDetail.Class cd = ''heading''
           then cd\<lparr>TextContent := nullString (q_ch_text_content row),
                   Level := nullInt64 (q_ch_level row)\<rparr>
         else if ContletDetail.Class cd = ''image''
           then cd\<lparr>Src := nullString (q_ci_src row),
                   AltText := nullString (q_ci_alt_text row)\<rparr>
         else cd)"

fun scan_contlets :: "contlet_query_row list \<Rightarrow> ContletDetail list \<Rightarrow> ContletDetail list" where
  "scan_contlets [] contlets = contlets"
| "scan_contlets (row # rows) contlets = scan_contlets rows (contlets @ [scan_contlet row])"

definition zeroPiece :: PieceDetail where
  "zeroPiece = \<lparr>ID = 0, Class = [], Title = [], Contlets = []\<rparr>"

text \<open>
  \<open>getPieceByID\<close> returns its \<open>piece\<close> next to the error. \<open>Scan\<close> assigns the
  columns in order, so a NULL title leaves the id and the class assigned.
\<close>

definition getPieceByID :: "faults \<Rightarrow> store \<Rightarrow> int \<Rightarrow> PieceDetail \<times> error option" where
  "getPieceByID f s pid =
     (case f 0 of
        Some err \<Rightarrow> (zeroPiece, Some (StoreError err))
      | None \<Rightarrow>
         (case content_piece s pid of
            None \<Rightarrow> (zeroPiece, Some ErrNoRows)
          | Some r \<Rightarrow>
             (case cp_title r of
                None \<Rightarrow> (zeroPiece\<lparr>ID := pid, Class := cp_class r\<rparr>, Some (ScanNull ''title''))
              | Some t \<Rightarrow>
                 (let piece = \<lparr>ID = pid, Class = cp_class r, Title = t, Contlets = []\<rparr>
                  in case f 1 of
                       Some err \<Rightarrow> (piece, Some (StoreError err))
                     | None \<Rightarrow>
                         (piece\<lparr>Contlets := scan_contlets (contlets_query s pid) (Contlets piece)\<rparr>,
                          None)))))"

text \<open>
  \<open>INSERT INTO content_piece_contlets (content_piece_id, contlet_id, sort_order)\<close>, the
  statement by which database.go attaches a contlet to a piece. The primary key of the
  table is \<open>(content_piece_id, sort_order)\<close>.
\<close>

definition insert_content_piece_contlets ::
  "store \<Rightarrow> int \<Rightarrow> int \<Rightarrow> int \<Rightarrow> db_error + store" where
  "insert_content_piece_contlets s piece contlet sortKey =
     (if list_ex (\<lambda>cpc. content_piece_id cpc = piece \<and> sort_order cpc = sortKey)
           (content_piece_contlets s)
      then Inl ''Duplicate entry''
      else Inr (s\<lparr>content_piece_contlets := content_piece_contlets s @
                 [\<lparr>content_piece_id = piece, contlet_id = contlet, sort_order = sortKey\<rparr>]\<rparr>))"

subsection \<open>Creating and updating a content piece\<close>

text \<open>
  \<open>INSERT INTO entity () VALUES ()\<close>: the new row takes the value of the AUTO_INCREMENT
  counter of the table, an INT.
\<close>

definition insert_entity :: "store \<Rightarrow> db_error + (int \<times> store)" where
  "insert_entity s =
     (let eid = entity_auto_increment s
      in if eid > 2147483647 then Inl ''Out of range value''
         else if eid \<in> set (entity s) then Inl ''Duplicate entry''
         else Inr (eid, s\<lparr>entity := entity s @ [eid], entity_auto_increment := eid + 1\<rparr>))"

text \<open>
  \<open>INSERT INTO content_piece (id, title, class)\<close>: the id is the primary key and a
  foreign key into \<open>entity\<close>.
\<close>

definition insert_content_piece :: "store \<Rightarrow> int \<Rightarrow> string \<Rightarrow> string \<Rightarrow> db_error + store" where
  "insert_content_piece s pid title class =
     (if content_piece s pid \<noteq> None then Inl ''Duplicate entry''
      else if pid \<notin> set (entity s) then Inl ''Foreign key constraint fails''
      else Inr (s\<lparr>content_piece := (content_piece s)(pid \<mapsto> \<lparr>cp_class = class, cp_title = Some title\<rparr>)\<rparr>))"

text \<open>
  A transaction works on its own copy \<open>tx\<close> of the store \<open>s\<close> it began in. A commit
  that goes through makes the copy the store; a rollback, or a commit that fails, drops
  the rows of the copy. The AUTO_INCREMENT counter is not transactional in InnoDB and
  keeps the value it reached.
\<close>

definition rollback :: "store \<Rightarrow> store \<Rightarrow> store" where
  "rollback s tx = s\<lparr>entity_auto_increment := entity_auto_increment tx\<rparr>"

definition createContentPiece ::
  "faults \<Rightarrow> store \<Rightarrow> string \<Rightarrow> string \<Rightarrow> (int \<times> error option) \<times> store" where
  "createContentPiece f s title class =
     (case f 0 of
        Some err \<Rightarrow> ((0, Some (StoreError err)), s)
      | None \<Rightarrow>
         (case (case f 1 of Some err \<Rightarrow> Inl err | None \<Rightarrow> insert_entity s) of
            Inl err \<Rightarrow> ((0, Some (CreateEntityFailed err)), rollback s s)
          | Inr (pid, tx) \<Rightarrow>
             (case (case f 2 of Some err \<Rightarrow> Inl err
                    | None \<Rightarrow> insert_content_piece tx pid title class) of
                Inl err \<Rightarrow> ((0, Some (InsertPieceFailed err)), rollback s tx)
              | Inr tx' \<Rightarrow>
                 (case f 3 of
                    Some err \<Rightarrow> ((0, Some (StoreError err)), rollback s tx')
                  | None \<Rightarrow> ((pid, None), tx')))))"

text \<open>
  \<open>UPDATE content_piece SET title = ?, class = ? WHERE id = ?\<close>: a statement that
  matches no row changes nothing and is no error.
\<close>

definition updateContentPiece ::
  "faults \<Rightarrow> store \<Rightarrow> int \<Rightarrow> string \<Rightarrow> string \<Rightarrow> error option \<times> store" where
  "updateContentPiece f s pid title class =
     (case f 0 of
        Some err \<Rightarrow> (Some (UpdatePieceFailed pid err), s)
      | None \<Rightarrow>
         (case content_piece s pid of
            None \<Rightarrow> (None, s)
          | Some r \<Rightarrow>
             (None, s\<lparr>content_piece :=
                       (content_piece s)(pid \<mapsto> r\<lparr>cp_title := Some title, cp_class := class\<rparr>)\<rparr>)))"

definition empty_store :: store where
  "empty_store =
     \<lparr>entity = [], entity_auto_increment = 1, content_piece = Map.empty,
      content_piece_contlets = [], contlet_paragraph = Map.empty, contlet_image = Map.empty,
      contlet_heading = Map.empty, taxonomy = [], tag = []\<rparr>"

subsection \<open>Classes of errors and concrete stores\<close>

text \<open>
  The two errors of \<open>updateTableSchema\<close> that refuse an identifier, and the one that
  refuses a column type.
\<close>

definition isInvalidIdentifier :: "error \<Rightarrow> bool" where
  "isInvalidIdentifier e =
     (case e of InvalidTableName _ \<Rightarrow> True | InvalidColumnName _ \<Rightarrow> True | _ \<Rightarrow> False)"

definition isInvalidColumnType :: "error \<Rightarrow> bool" where
  "isInvalidColumnType e = (case e of InvalidColumnType _ \<Rightarrow> True | _ \<Rightarrow> False)"

text \<open>The store fails the \<open>k\<close>-th call and no other.\<close>

definition fail_at :: "nat \<Rightarrow> db_error \<Rightarrow> faults" where
  "fail_at k err n = (if n = k then Some err else None)"

text \<open>A collation that compares texts byte by byte.\<close>

definition binary_collation :: "string \<Rightarrow> nat list" where
  "binary_collation text = map of_char text"

definition and_then ::
  "db_error + store \<Rightarrow> (store \<Rightarrow> db_error + store) \<Rightarrow> db_error + store" where
  "and_then r step = (case r of Inl err \<Rightarrow> Inl err | Inr s \<Rightarrow> step s)"

text \<open>
  Stores for running the model: the tags and the content piece of the sample data, the
  piece with four contlets attached at the sort keys 100, 200, 300 and then 150, and the
  piece with contlets that have rows in three, two, one and none of the variant tables.
\<close>

definition tags_example :: store where
  "tags_example = empty_store
     \<lparr>taxonomy := [\<lparr>tx_id = 1, name = ''Technology''\<rparr>, \<lparr>tx_id = 2, name = ''Audience''\<rparr>],
      tag := [\<lparr>t_id = 3, taxonomy_id = 1, t_value = ''Rust''\<rparr>,
              \<lparr>t_id = 4, taxonomy_id = 2, t_value = ''Beginners''\<rparr>,
              \<lparr>t_id = 5, taxonomy_id = 1, t_value = ''Go''\<rparr>]\<rparr>"

definition piece_example :: store where
  "piece_example = empty_store
     \<lparr>entity := [1], entity_auto_increment := 2,
      content_piece := [1 \<mapsto> \<lparr>cp_class = ''blog_post'', cp_title = Some ''About This System''\<rparr>]\<rparr>"

definition ordered_example :: store where
  "ordered_example = piece_example
     \<lparr>content_piece_contlets :=
        [\<lparr>content_piece_id = 1, contlet_id = 11, sort_order = 100\<rparr>,
         \<lparr>content_piece_id = 1, contlet_id = 12, sort_order = 200\<rparr>,
         \<lparr>content_piece_id = 1, contlet_id = 13, sort_order = 300\<rparr>,
         \<lparr>content_piece_id = 1, contlet_id = 14, sort_order = 150\<rparr>]\<rparr>"

definition variants_example :: store where
  "variants_example = piece_example
     \<lparr>content_piece_contlets :=
        [\<lparr>content_piece_id = 1, contlet_id = 21, sort_order = 100\<rparr>,
         \<lparr>content_piece_id = 1, contlet_id = 22, sort_order = 200\<rparr>,
         \<lparr>content_piece_id = 1, contlet_id = 23, sort_order = 300\<rparr>,
         \<lparr>content_piece_id = 1, contlet_id = 24, sort_order = 400\<rparr>],
      contlet_paragraph := [21 \<mapsto> ''Built on MariaDB and Go.''],
      contlet_image := [21 \<mapsto> \<lparr>src = ''/a.png'', alt_text = Some ''A''\<rparr>,
                        22 \<mapsto> \<lparr>src = ''/b.png'', alt_text = None\<rparr>],
      contlet_heading := [21 \<mapsto> \<lparr>text_content = ''One'', level = 1\<rparr>,
                          22 \<mapsto> \<lparr>text_content = ''Two'', level = 2\<rparr>,
                          23 \<mapsto> \<lparr>text_content = ''Core Philosophy'', level = 1\<rparr>]\<rparr>"

section \<open>Properties of the schema engine\<close>

subsection \<open>The loop of the handler ends\<close>

text \<open>
  Two numbers with the same decimal digits are equal, so the keys \<open>col_i_field\<close> of
  different \<open>i\<close> are different, and a finite form has only finitely many of them. The
  number of those with an index from \<open>i\<close> on goes down with every round of the loop.
\<close>

lemma digits_distinct: "distinct ''0123456789''"
  by simp

lemma digit_inj: "a < 10 \<Longrightarrow> b < 10 \<Longrightarrow> ''0123456789'' ! a = ''0123456789'' ! b \<Longrightarrow> a = b"
  using digits_distinct by (simp add: nth_eq_iff_index_eq del: distinct.simps)

lemma showNat_nonempty: "showNat n \<noteq> []"
  by (subst showNat.simps) simp

lemma showNat_small: "n < 10 \<Longrightarrow> showNat n = [''0123456789'' ! n]"
  by (subst showNat.simps) simp

lemma showNat_large:
  "\<not> n < 10 \<Longrightarrow> showNat n = showNat (n div 10) @ [''0123456789'' ! (n mod 10)]"
  by (subst showNat.simps) simp

lemma showNat_inj: "showNat a = showNat b \<Longrightarrow> a = b"
proof (induction a arbitrary: b rule: showNat.induct)
  case (1 n)
  show ?case
  proof (cases "n < 10")
    case small: True
    show ?thesis
    proof (cases "b < 10")
      case True
      with small "1.prems" show ?thesis
        by (simp add: showNat_small digit_inj)
    next
      case False
      with small "1.prems" showNat_nonempty [of "b div 10"] show ?thesis
        by (simp add: showNat_small showNat_large)
    qed
  next
    case large: False
    show ?thesis
    proof (cases "b < 10")
      case True
      with large "1.prems" showNat_nonempty [of "n div 10"] show ?thesis
        by (simp add: showNat_small showNat_large)
    next
      case False
      with large "1.prems" have eq: "showNat (n div 10) = showNat (b div 10)"
        and last: "''0123456789'' ! (n mod 10) = ''0123456789'' ! (b mod 10)"
        by (simp_all add: showNat_large)
      from "1.IH" [OF large eq] have "n div 10 = b div 10" .
      moreover from last have "n mod 10 = b mod 10"
        by (intro digit_inj) simp_all
      ultimately show ?thesis
        by (metis div_mult_mod_eq)
    qed
  qed
qed

lemma colKey_inj: "colKey i part = colKey j part \<Longrightarrow> i = j"
  by (simp add: colKey_def showNat_inj)

lemma finite_col_indices: "finite {j. colKey j part \<in> K}" if "finite K"
proof -
  have "inj (\<lambda>j. colKey j part)"
    by (rule injI) (rule colKey_inj)
  then have "finite ((\<lambda>j. colKey j part) -` K)"
    using that by (rule finite_vimageI[rotated])
  then show ?thesis
    by (simp add: vimage_def)
qed


lemma formColumns_measure:
  assumes "fmlookup m (colKey i part) = Some y"
  shows "card {j. Suc i \<le> j \<and> colKey j part \<in> fmdom' m} <
         card {j. i \<le> j \<and> colKey j part \<in> fmdom' m}"
proof (rule psubset_card_mono)
  have "finite {j. colKey j part \<in> fmdom' m}"
    by (rule finite_col_indices) simp
  then show "finite {j. i \<le> j \<and> colKey j part \<in> fmdom' m}"
    by (rule rev_finite_subset) auto
  from assms have here: "i \<in> {j. i \<le> j \<and> colKey j part \<in> fmdom' m}"
    by (auto simp: fmdom'I)
  have "i \<notin> {j. Suc i \<le> j \<and> colKey j part \<in> fmdom' m}"
    by simp
  with here have "{j. Suc i \<le> j \<and> colKey j part \<in> fmdom' m} \<noteq>
      {j. i \<le> j \<and> colKey j part \<in> fmdom' m}"
    by metis
  moreover have "{j. Suc i \<le> j \<and> colKey j part \<in> fmdom' m} \<subseteq>
      {j. i \<le> j \<and> colKey j part \<in> fmdom' m}"
    by auto
  ultimately show "{j. Suc i \<le> j \<and> colKey j part \<in> fmdom' m} \<subset>
      {j. i \<le> j \<and> colKey j part \<in> fmdom' m}"
    by (simp add: psubset_eq)
qed

termination formColumns
  by (relation "measure (\<lambda>(r, i, columns). card {j. i \<le> j \<and> colKey j ''field'' \<in> fmdom' (Form r)})")
     (auto intro: formColumns_measure)

subsection \<open>What a schema change validates\<close>

lemma alterClauses_error_cases:
  "alterClauses cols acc = Inl e \<Longrightarrow>
     (\<exists>c \<in> set cols. \<not> validIdentifier (Field c) \<and> e = InvalidColumnName (Field c)) \<or>
     (\<exists>c \<in> set cols. strings_ContainsAny (Type c) typeForbidden \<and> e = InvalidColumnType (Type c))"
  by (induction cols arbitrary: acc) (auto split: if_splits)

lemma alterClauses_invalid_name:
  "c \<in> set cols \<Longrightarrow> \<not> validIdentifier (Field c) \<Longrightarrow> \<exists>e. alterClauses cols acc = Inl e"
  by (induction cols arbitrary: acc) auto

lemma alterClauses_first_invalid:
  "\<forall>p \<in> set pre. validIdentifier (Field p) \<and> \<not> strings_ContainsAny (Type p) typeForbidden \<Longrightarrow>
   \<not> validIdentifier (Field c) \<Longrightarrow>
   alterClauses (pre @ c # post) acc = Inl (InvalidColumnName (Field c))"
  by (induction pre arbitrary: acc) auto

lemma alterClauses_first_bad_type:
  "\<forall>p \<in> set pre. validIdentifier (Field p) \<and> \<not> strings_ContainsAny (Type p) typeForbidden \<Longrightarrow>
   validIdentifier (Field c) \<Longrightarrow> strings_ContainsAny (Type c) typeForbidden \<Longrightarrow>
   alterClauses (pre @ c # post) acc = Inl (InvalidColumnType (Type c))"
  by (induction pre arbitrary: acc) auto

lemmas schema_eval =
  updateTableSchema_def recording_def column_def columnClause_def strings_ContainsAny_def
  typeForbidden_def identStart_def identRest_def isLetter_def isDigit_def

lemmas handler_eval =
  updateSchemaHandler_def post_schema_def formColumn_def FormValue_def colKey_def
  strings_TrimPrefix_def showNat.simps formColumns.simps

text \<open>
  Claim C1. The claim: the physical type of a column comes from a closed mapping of
  semantic type names, a name outside the mapping fails with UnknownSemanticType, and the
  statement never carries the semantic label or a type text of the caller.
  Neither \<open>updateSchemaHandler\<close> nor \<open>updateTableSchema\<close> has such a mapping. The
  handler copies the form field \<open>col_0_type\<close> into the column, and \<open>updateTableSchema\<close>
  puts that text into the statement as it is: the label \<open>Single Line of Text\<close> reaches
  the statement untranslated, a name that no mapping knows is not refused, and a physical
  type written by the caller is accepted.
\<close>

theorem semantic_type_not_translated:
  "formColumns (post_schema ''content_piece''
      [(''col_0_field'', ''title''), (''col_0_type'', ''Single Line of Text''),
       (''col_0_null'', ''YES'')]) 0 [] =
     [column ''title'' ''Single Line of Text'' ''YES'' '''' ''''] \<and>
   updateSchemaHandler recording []
     (post_schema ''content_piece''
        [(''col_0_field'', ''title''), (''col_0_type'', ''Single Line of Text''),
         (''col_0_null'', ''YES'')]) =
     (Found ''/schema'',
       [''ALTER TABLE `content_piece` MODIFY COLUMN `title` Single Line of Text NULL'']) \<and>
   updateTableSchema recording [] ''content_piece''
     [column ''title'' ''Single Line of Text'' ''YES'' '''' ''''] =
     (None, [''ALTER TABLE `content_piece` MODIFY COLUMN `title` Single Line of Text NULL'']) \<and>
   updateTableSchema recording [] ''content_piece''
     [column ''title'' ''No Such Type'' ''YES'' '''' ''''] =
     (None, [''ALTER TABLE `content_piece` MODIFY COLUMN `title` No Such Type NULL'']) \<and>
   updateTableSchema recording [] ''content_piece''
     [column ''title'' ''LONGTEXT'' ''YES'' '''' ''''] =
     (None, [''ALTER TABLE `content_piece` MODIFY COLUMN `title` LONGTEXT NULL''])"
  by (simp add: handler_eval schema_eval)

text \<open>
  Claim C2, as it is stated: whenever the table name or a column name is not an
  identifier, \<open>updateTableSchema\<close> returns an invalid-identifier error and executes
  nothing. The columns are checked one after the other, name and then type, so a column
  type with a forbidden character in an earlier column is reported first: the submission
  below has the column name \<open>name; DROP TABLE x\<close> and is refused for the type
  \<open>TEXT;\<close> of the column before it.
\<close>

theorem invalid_identifier_counterexample:
  "\<not> validIdentifier ''name; DROP TABLE x'' \<and>
   updateTableSchema recording [] ''content_piece''
     [column ''status'' ''TEXT;'' ''YES'' '''' '''',
      column ''name; DROP TABLE x'' ''TEXT'' ''YES'' '''' ''''] =
     (Some (InvalidColumnType ''TEXT;''), []) \<and>
   \<not> isInvalidIdentifier (InvalidColumnType ''TEXT;'')"
  by (simp add: schema_eval isInvalidIdentifier_def)

text \<open>
  Claim C2, amended. If the table name is not an identifier, \<open>updateTableSchema\<close>
  returns the invalid-table-name error. If the table name is an identifier and some column
  name is not, it returns an error that is an invalid-identifier error or the
  invalid-column-type error: the error is that of the first column that is refused, the
  invalid-column-name error when the name of that column is not an identifier and the
  invalid-column-type error when its name is one and its type has a forbidden character.
  In every one of these cases the store is returned as it was, whatever the engine would
  do with a statement: no statement is executed.
\<close>

theorem updateTableSchema_invalid_identifier:
  "(\<not> validIdentifier tableName \<longrightarrow>
      updateTableSchema exec s tableName columns = (Some (InvalidTableName tableName), s)) \<and>
   (validIdentifier tableName \<longrightarrow> c \<in> set columns \<longrightarrow> \<not> validIdentifier (Field c) \<longrightarrow>
      (\<exists>e. updateTableSchema exec s tableName columns = (Some e, s) \<and>
           (isInvalidIdentifier e \<or> isInvalidColumnType e))) \<and>
   (validIdentifier tableName \<longrightarrow> columns = pre @ c # post \<longrightarrow>
      (\<forall>p \<in> set pre. validIdentifier (Field p) \<and> \<not> strings_ContainsAny (Type p) typeForbidden) \<longrightarrow>
      (\<not> validIdentifier (Field c) \<longrightarrow>
         updateTableSchema exec s tableName columns = (Some (InvalidColumnName (Field c)), s)) \<and>
      (validIdentifier (Field c) \<longrightarrow> strings_ContainsAny (Type c) typeForbidden \<longrightarrow>
         updateTableSchema exec s tableName columns = (Some (InvalidColumnType (Type c)), s)))"
proof (intro conjI impI)
  assume "\<not> validIdentifier tableName"
  then show "updateTableSchema exec s tableName columns = (Some (InvalidTableName tableName), s)"
    by (simp add: updateTableSchema_def)
next
  assume t: "validIdentifier tableName" and c: "c \<in> set columns" "\<not> validIdentifier (Field c)"
  from c obtain e where e: "alterClauses columns [] = Inl e"
    using alterClauses_invalid_name by blast
  then have "isInvalidIdentifier e \<or> isInvalidColumnType e"
    using alterClauses_error_cases [OF e]
    by (auto simp: isInvalidIdentifier_def isInvalidColumnType_def)
  moreover from t e have "updateTableSchema exec s tableName columns = (Some e, s)"
    by (simp add: updateTableSchema_def)
  ultimately show "\<exists>e. updateTableSchema exec s tableName columns = (Some e, s) \<and>
      (isInvalidIdentifier e \<or> isInvalidColumnType e)"
    by blast
next
  assume t: "validIdentifier tableName" and cols: "columns = pre @ c # post"
    and pre: "\<forall>p \<in> set pre. validIdentifier (Field p) \<and> \<not> strings_ContainsAny (Type p) typeForbidden"
    and c: "\<not> validIdentifier (Field c)"
  have "alterClauses columns [] = Inl (InvalidColumnName (Field c))"
    unfolding cols using pre c by (rule alterClauses_first_invalid)
  with t show "updateTableSchema exec s tableName columns = (Some (InvalidColumnName (Field c)), s)"
    by (simp add: updateTableSchema_def)
next
  assume t: "validIdentifier tableName" and cols: "columns = pre @ c # post"
    and pre: "\<forall>p \<in> set pre. validIdentifier (Field p) \<and> \<not> strings_ContainsAny (Type p) typeForbidden"
    and c: "validIdentifier (Field c)" "strings_ContainsAny (Type c) typeForbidden"
  have "alterClauses columns [] = Inl (InvalidColumnType (Type c))"
    unfolding cols using pre c by (rule alterClauses_first_bad_type)
  with t show "updateTableSchema exec s tableName columns = (Some (InvalidColumnType (Type c)), s)"
    by (simp add: updateTableSchema_def)
qed

theorem updateTableSchema_invalid_identifier_witness:
  "updateTableSchema recording [] ''content piece'' [column ''title'' ''TEXT'' ''YES'' '''' ''''] =
     (Some (InvalidTableName ''content piece''), []) \<and>
   (\<exists>e. updateTableSchema recording [] ''content_piece''
           [column ''status'' ''TEXT;'' ''YES'' '''' '''',
            column ''name; DROP TABLE x'' ''TEXT'' ''YES'' '''' ''''] = (Some e, []) \<and>
        (isInvalidIdentifier e \<or> isInvalidColumnType e)) \<and>
   updateTableSchema recording [] ''content_piece''
     [column ''title'' ''TEXT'' ''YES'' '''' '''',
      column ''name; DROP TABLE x'' ''TEXT'' ''YES'' '''' ''''] =
     (Some (InvalidColumnName ''name; DROP TABLE x''), []) \<and>
   updateTableSchema recording [] ''content_piece''
     [column ''status'' ''TEXT;'' ''YES'' '''' '''',
      column ''name; DROP TABLE x'' ''TEXT'' ''YES'' '''' ''''] =
     (Some (InvalidColumnType ''TEXT;''), [])"
proof -
  let ?bad = "column ''name; DROP TABLE x'' ''TEXT'' ''YES'' '''' ''''"
  let ?badtype = "column ''status'' ''TEXT;'' ''YES'' '''' ''''"
  let ?ok = "column ''title'' ''TEXT'' ''YES'' '''' ''''"
  have bad: "\<not> validIdentifier (Field ?bad)"
    by (simp add: schema_eval)
  have tab: "validIdentifier ''content_piece''" "\<not> validIdentifier ''content piece''"
    by (simp_all add: schema_eval)
  have ok: "\<forall>p \<in> set [?ok]. validIdentifier (Field p) \<and> \<not> strings_ContainsAny (Type p) typeForbidden"
    by (simp add: schema_eval)
  have badtype: "validIdentifier (Field ?badtype)" "strings_ContainsAny (Type ?badtype) typeForbidden"
    by (simp_all add: schema_eval)
  show ?thesis
    using updateTableSchema_invalid_identifier
      [where tableName = "''content piece''" and exec = recording and s = "[]" and columns = "[?ok]"
         and c = ?ok and pre = "[]" and post = "[]"]
      updateTableSchema_invalid_identifier
      [where tableName = "''content_piece''" and exec = recording and s = "[]"
         and columns = "[?badtype, ?bad]" and c = ?bad and pre = "[]" and post = "[]"]
      updateTableSchema_invalid_identifier
      [where tableName = "''content_piece''" and exec = recording and s = "[]"
         and columns = "[?ok, ?bad]" and c = ?bad and pre = "[?ok]" and post = "[]"]
      updateTableSchema_invalid_identifier
      [where tableName = "''content_piece''" and exec = recording and s = "[]"
         and columns = "[?badtype, ?bad]" and c = ?badtype and pre = "[]" and post = "[?bad]"]
      bad tab ok badtype
    by (simp add: column_def)
qed

text \<open>
  Claim C3. The claim: a default value is quoted through the escaping primitive of the
  store, so that a quote in it cannot change the structure of the statement.
  \<open>updateTableSchema\<close> puts the default between two single quotes and escapes nothing:
  a default with a quote in it, posted in the form field \<open>col_0_default\<close>, closes the
  literal, and the rest of it is read as further clauses of the statement.
\<close>

theorem default_value_not_escaped:
  "updateSchemaHandler recording []
     (post_schema ''content_piece''
        [(''col_0_field'', ''status''), (''col_0_type'', ''TEXT''), (''col_0_null'', ''YES''),
         (''col_0_default'', ''x', DROP COLUMN `title`, MODIFY COLUMN `class` TEXT DEFAULT 'y'')]) =
     (Found ''/schema'',
      [''ALTER TABLE `content_piece` MODIFY COLUMN `status` TEXT NULL DEFAULT 'x', '' @
       ''DROP COLUMN `title`, MODIFY COLUMN `class` TEXT DEFAULT 'y'' @ [CHR 0x27]]) \<and>
   updateTableSchema recording [] ''content_piece''
     [column ''status'' ''TEXT'' ''YES''
        ''x', DROP COLUMN `title`, MODIFY COLUMN `class` TEXT DEFAULT 'y'' ''''] =
     (None,
      [''ALTER TABLE `content_piece` MODIFY COLUMN `status` TEXT NULL DEFAULT 'x', '' @
       ''DROP COLUMN `title`, MODIFY COLUMN `class` TEXT DEFAULT 'y'' @ [CHR 0x27]])"
  by (simp add: handler_eval schema_eval)

text \<open>
  Claim C4. The claim: the extra attribute of a column is taken from a short list of
  allowed tokens and any other text is refused. The handler copies the form field
  \<open>col_0_extra\<close> into the column and \<open>updateTableSchema\<close> appends that text to the
  clause without looking at it.
\<close>

theorem extra_attribute_not_checked:
  "updateSchemaHandler recording []
     (post_schema ''content_piece''
        [(''col_0_field'', ''id''), (''col_0_type'', ''INT''), (''col_0_null'', ''NO''),
         (''col_0_extra'', ''AUTO_INCREMENT, DROP COLUMN `title`'')]) =
     (Found ''/schema'',
      [''ALTER TABLE `content_piece` MODIFY COLUMN `id` INT NOT NULL '' @
       ''AUTO_INCREMENT, DROP COLUMN `title`'']) \<and>
   updateTableSchema recording [] ''content_piece''
     [column ''id'' ''INT'' ''NO'' '''' ''AUTO_INCREMENT, DROP COLUMN `title`''] =
     (None,
      [''ALTER TABLE `content_piece` MODIFY COLUMN `id` INT NOT NULL '' @
       ''AUTO_INCREMENT, DROP COLUMN `title`''])"
  by (simp add: handler_eval schema_eval)

section \<open>Properties of the reads and writes of content\<close>

lemma scan_contlets_append: "scan_contlets rows acc = acc @ map scan_contlet rows"
  by (induction rows arbitrary: acc) auto

lemma ID_scan_contlet: "ContletDetail.ID (scan_contlet row) = q_contlet_id row"
  by (simp add: scan_contlet_def Let_def)

lemma getPieceByID_contlets:
  "snd (getPieceByID f s pid) = None \<Longrightarrow>
   Contlets (fst (getPieceByID f s pid)) = map (scan_contlet \<circ> contlet_join s) (piece_edges s pid)"
  by (auto simp: getPieceByID_def scan_contlets_append contlets_query_def Let_def
           split: option.splits)

lemmas store_eval =
  empty_store_def piece_example_def ordered_example_def variants_example_def tags_example_def
  no_faults_def fail_at_def

text \<open>
  Claim C7. When \<open>getPieceByID\<close> returns without error, the contlets of the piece it
  returns are, position by position, the rows of \<open>content_piece_contlets\<close> of that piece
  in ascending order of their sort keys, each row once. After the attachments at the keys
  100, 200, 300 and then 150 the contlets come back in the order 100, 150, 200, 300.
\<close>

theorem getPieceByID_ordered:
  "snd (getPieceByID f s pid) = None \<Longrightarrow>
     map ContletDetail.ID (Contlets (fst (getPieceByID f s pid))) =
       map contlet_id (piece_edges s pid) \<and>
     sorted (map sort_order (piece_edges s pid)) \<and>
     mset (piece_edges s pid) =
       mset (filter (\<lambda>cpc. content_piece_id cpc = pid) (content_piece_contlets s))"
  by (simp add: getPieceByID_contlets ID_scan_contlet contlet_join_def Let_def piece_edges_def)

theorem getPieceByID_ordered_witness:
  "and_then (and_then (and_then
       (insert_content_piece_contlets piece_example 1 11 100)
       (\<lambda>s. insert_content_piece_contlets s 1 12 200))
       (\<lambda>s. insert_content_piece_contlets s 1 13 300))
       (\<lambda>s. insert_content_piece_contlets s 1 14 150) = Inr ordered_example \<and>
   snd (getPieceByID no_faults ordered_example 1) = None \<and>
   map sort_order (piece_edges ordered_example 1) = [100, 150, 200, 300] \<and>
   map ContletDetail.ID (Contlets (fst (getPieceByID no_faults ordered_example 1))) =
     [11, 14, 12, 13]"
proof -
  have ok: "snd (getPieceByID no_faults ordered_example 1) = None"
    by (simp add: getPieceByID_def store_eval)
  have attached: "and_then (and_then (and_then
       (insert_content_piece_contlets piece_example 1 11 100)
       (\<lambda>s. insert_content_piece_contlets s 1 12 200))
       (\<lambda>s. insert_content_piece_contlets s 1 13 300))
       (\<lambda>s. insert_content_piece_contlets s 1 14 150) = Inr ordered_example"
    by (simp add: and_then_def insert_content_piece_contlets_def store_eval)
  have edges: "piece_edges ordered_example 1 =
      [\<lparr>content_piece_id = 1, contlet_id = 11, sort_order = 100\<rparr>,
       \<lparr>content_piece_id = 1, contlet_id = 14, sort_order = 150\<rparr>,
       \<lparr>content_piece_id = 1, contlet_id = 12, sort_order = 200\<rparr>,
       \<lparr>content_piece_id = 1, contlet_id = 13, sort_order = 300\<rparr>]"
    by (simp add: piece_edges_def store_eval)
  from getPieceByID_ordered [OF ok] ok attached show ?thesis
    by (simp add: edges)
qed

lemma scan_contlet_join:
  "scan_contlet (contlet_join s cpc) =
     (case contlet_paragraph s (contlet_id cpc) of
        Some text \<Rightarrow>
          \<lparr>ContletDetail.ID = contlet_id cpc, Class = ''paragraph'', TextContent = text,
           Src = [], AltText = [], Level = 0\<rparr>
      | None \<Rightarrow>
         (case contlet_image s (contlet_id cpc) of
            Some img \<Rightarrow>
              \<lparr>ContletDetail.ID = contlet_id cpc, Class = ''image'', TextContent = [],
               Src = src img, AltText = nullString (alt_text img), Level = 0\<rparr>
          | None \<Rightarrow>
             (case contlet_heading s (contlet_id cpc) of
                Some h \<Rightarrow>
                  \<lparr>ContletDetail.ID = contlet_id cpc, Class = ''heading'',
                   TextContent = text_content h, Src = [], AltText = [], Level = level h\<rparr>
              | None \<Rightarrow>
                  \<lparr>ContletDetail.ID = contlet_id cpc, Class = ''unknown'', TextContent = [],
                   Src = [], AltText = [], Level = 0\<rparr>)))"
  by (simp add: scan_contlet_def contlet_join_def Let_def nullString_def nullInt64_def
           split: option.splits)

lemma Class_scan_contlet: "ContletDetail.Class (scan_contlet row) = q_class row"
  by (simp add: scan_contlet_def Let_def)

lemma piece_edges_set:
  "set (piece_edges s pid) = {cpc \<in> set (content_piece_contlets s). content_piece_id cpc = pid}"
  by (auto simp: piece_edges_def)

lemma variants_example_read:
  "getPieceByID no_faults variants_example 1 =
     (\<lparr>PieceDetail.ID = 1, Class = ''blog_post'', Title = ''About This System'',
       Contlets =
         [\<lparr>ContletDetail.ID = 21, Class = ''paragraph'',
           TextContent = ''Built on MariaDB and Go.'', Src = [], AltText = [], Level = 0\<rparr>,
          \<lparr>ContletDetail.ID = 22, Class = ''image'', TextContent = [],
           Src = ''/b.png'', AltText = [], Level = 0\<rparr>,
          \<lparr>ContletDetail.ID = 23, Class = ''heading'', TextContent = ''Core Philosophy'',
           Src = [], AltText = [], Level = 1\<rparr>,
          \<lparr>ContletDetail.ID = 24, Class = ''unknown'', TextContent = [],
           Src = [], AltText = [], Level = 0\<rparr>]\<rparr>,
      None)"
  by (simp add: getPieceByID_def contlets_query_def piece_edges_def contlet_join_def
        scan_contlet_def nullString_def nullInt64_def store_eval)

text \<open>
  Claim C10. When the row of the piece exists with a title that is not NULL and the store
  fails neither query, \<open>getPieceByID\<close> returns without error, whatever the variant
  tables hold. Every contlet it returns is classified by the first variant table, in the
  order paragraph, image, heading, that has a row for its id, and carries the fields of
  that one variant; a contlet with a row in none of the three tables has the class
  \<open>unknown\<close> and empty fields. Every row of \<open>content_piece_contlets\<close> of the piece is
  returned so classified, be its contlet in several variant tables or in none, and the
  piece has as many contlets as it has such rows.
\<close>

theorem getPieceByID_variant_priority:
  assumes "f 0 = None" and "f 1 = None"
    and "content_piece s pid = Some r" and "cp_title r = Some t"
  shows "snd (getPieceByID f s pid) = None \<and>
    (\<forall>cd \<in> set (Contlets (fst (getPieceByID f s pid))).
       case contlet_paragraph s (ContletDetail.ID cd) of
         Some text \<Rightarrow>
           cd = \<lparr>ContletDetail.ID = ContletDetail.ID cd, Class = ''paragraph'',
                 TextContent = text, Src = [], AltText = [], Level = 0\<rparr>
       | None \<Rightarrow>
          (case contlet_image s (ContletDetail.ID cd) of
             Some img \<Rightarrow>
               cd = \<lparr>ContletDetail.ID = ContletDetail.ID cd, Class = ''image'', TextContent = [],
                     Src = src img, AltText = nullString (alt_text img), Level = 0\<rparr>
           | None \<Rightarrow>
              (case contlet_heading s (ContletDetail.ID cd) of
                 Some h \<Rightarrow>
                   cd = \<lparr>ContletDetail.ID = ContletDetail.ID cd, Class = ''heading'',
                         TextContent = text_content h, Src = [], AltText = [], Level = level h\<rparr>
               | None \<Rightarrow>
                   cd = \<lparr>ContletDetail.ID = ContletDetail.ID cd, Class = ''unknown'',
                         TextContent = [], Src = [], AltText = [], Level = 0\<rparr>))) \<and>
    (\<forall>cpc \<in> set (content_piece_contlets s). content_piece_id cpc = pid \<longrightarrow>
       (case contlet_paragraph s (contlet_id cpc) of
          Some text \<Rightarrow>
            \<lparr>ContletDetail.ID = contlet_id cpc, Class = ''paragraph'', TextContent = text,
             Src = [], AltText = [], Level = 0\<rparr>
        | None \<Rightarrow>
           (case contlet_image s (contlet_id cpc) of
              Some img \<Rightarrow>
                \<lparr>ContletDetail.ID = contlet_id cpc, Class = ''image'', TextContent = [],
                 Src = src img, AltText = nullString (alt_text img), Level = 0\<rparr>
            | None \<Rightarrow>
               (case contlet_heading s (contlet_id cpc) of
                  Some h \<Rightarrow>
                    \<lparr>ContletDetail.ID = contlet_id cpc, Class = ''heading'',
                     TextContent = text_content h, Src = [], AltText = [], Level = level h\<rparr>
                | None \<Rightarrow>
                    \<lparr>ContletDetail.ID = contlet_id cpc, Class = ''unknown'', TextContent = [],
                     Src = [], AltText = [], Level = 0\<rparr>)))
         \<in> set (Contlets (fst (getPieceByID f s pid)))) \<and>
    length (Contlets (fst (getPieceByID f s pid))) =
      length (filter (\<lambda>cpc. content_piece_id cpc = pid) (content_piece_contlets s))"
proof (intro conjI ballI impI)
  from assms show ok: "snd (getPieceByID f s pid) = None"
    by (simp add: getPieceByID_def)
  note contlets = getPieceByID_contlets [OF ok]
  show "length (Contlets (fst (getPieceByID f s pid))) =
      length (filter (\<lambda>cpc. content_piece_id cpc = pid) (content_piece_contlets s))"
    by (simp add: contlets piece_edges_def)
  {
    fix cd
    assume "cd \<in> set (Contlets (fst (getPieceByID f s pid)))"
    then obtain cpc where cd: "cd = scan_contlet (contlet_join s cpc)"
      by (auto simp: contlets)
    then have "ContletDetail.ID cd = contlet_id cpc"
      by (simp add: ID_scan_contlet contlet_join_def Let_def)
    with cd show "case contlet_paragraph s (ContletDetail.ID cd) of
         Some text \<Rightarrow>
           cd = \<lparr>ContletDetail.ID = ContletDetail.ID cd, Class = ''paragraph'',
                 TextContent = text, Src = [], AltText = [], Level = 0\<rparr>
       | None \<Rightarrow>
          (case contlet_image s (ContletDetail.ID cd) of
             Some img \<Rightarrow>
               cd = \<lparr>ContletDetail.ID = ContletDetail.ID cd, Class = ''image'', TextContent = [],
                     Src = src img, AltText = nullString (alt_text img), Level = 0\<rparr>
           | None \<Rightarrow>
              (case contlet_heading s (ContletDetail.ID cd) of
                 Some h \<Rightarrow>
                   cd = \<lparr>ContletDetail.ID = ContletDetail.ID cd, Class = ''heading'',
                         TextContent = text_content h, Src = [], AltText = [], Level = level h\<rparr>
               | None \<Rightarrow>
                   cd = \<lparr>ContletDetail.ID = ContletDetail.ID cd, Class = ''unknown'',
                         TextContent = [], Src = [], AltText = [], Level = 0\<rparr>))"
      by (simp add: scan_contlet_join split: option.splits)
  }
  {
    fix cpc
    assume "cpc \<in> set (content_piece_contlets s)" and "content_piece_id cpc = pid"
    then have "cpc \<in> set (piece_edges s pid)"
      by (simp add: piece_edges_set)
    then have "scan_contlet (contlet_join s cpc) \<in> set (Contlets (fst (getPieceByID f s pid)))"
      by (simp add: contlets)
    then show "(case contlet_paragraph s (contlet_id cpc) of
          Some text \<Rightarrow>
            \<lparr>ContletDetail.ID = contlet_id cpc, Class = ''paragraph'', TextContent = text,
             Src = [], AltText = [], Level = 0\<rparr>
        | None \<Rightarrow>
           (case contlet_image s (contlet_id cpc) of
              Some img \<Rightarrow>
                \<lparr>ContletDetail.ID = contlet_id cpc, Class = ''image'', TextContent = [],
                 Src = src img, AltText = nullString (alt_text img), Level = 0\<rparr>
            | None \<Rightarrow>
               (case contlet_heading s (contlet_id cpc) of
                  Some h \<Rightarrow>
                    \<lparr>ContletDetail.ID = contlet_id cpc, Class = ''heading'',
                     TextContent = text_content h, Src = [], AltText = [], Level = level h\<rparr>
                | None \<Rightarrow>
                    \<lparr>ContletDetail.ID = contlet_id cpc, Class = ''unknown'', TextContent = [],
                     Src = [], AltText = [], Level = 0\<rparr>)))
         \<in> set (Contlets (fst (getPieceByID f s pid)))"
      by (simp only: scan_contlet_join)
  }
qed

theorem getPieceByID_variant_priority_witness:
  "no_faults 0 = None \<and> no_faults 1 = None \<and>
   content_piece variants_example 1 =
     Some \<lparr>cp_class = ''blog_post'', cp_title = Some ''About This System''\<rparr> \<and>
   contlet_paragraph variants_example 21 = Some ''Built on MariaDB and Go.'' \<and>
   contlet_image variants_example 21 = Some \<lparr>src = ''/a.png'', alt_text = Some ''A''\<rparr> \<and>
   contlet_heading variants_example 21 = Some \<lparr>text_content = ''One'', level = 1\<rparr> \<and>
   contlet_paragraph variants_example 24 = None \<and>
   contlet_image variants_example 24 = None \<and>
   contlet_heading variants_example 24 = None \<and>
   snd (getPieceByID no_faults variants_example 1) = None \<and>
   [cd \<leftarrow> Contlets (fst (getPieceByID no_faults variants_example 1)). ContletDetail.ID cd = 21] =
     [\<lparr>ContletDetail.ID = 21, Class = ''paragraph'',
       TextContent = ''Built on MariaDB and Go.'', Src = [], AltText = [], Level = 0\<rparr>] \<and>
   \<lparr>ContletDetail.ID = 24, Class = ''unknown'', TextContent = [], Src = [], AltText = [],
    Level = 0\<rparr> \<in> set (Contlets (fst (getPieceByID no_faults variants_example 1))) \<and>
   length (Contlets (fst (getPieceByID no_faults variants_example 1))) = 4"
proof -
  let ?r = "\<lparr>cp_class = ''blog_post'', cp_title = Some ''About This System''\<rparr>"
  let ?cpc = "\<lparr>content_piece_id = 1, contlet_id = 24, sort_order = 400\<rparr>"
  have f: "no_faults 0 = None" "no_faults 1 = None"
    by (simp_all add: no_faults_def)
  have r: "content_piece variants_example 1 = Some ?r" "cp_title ?r = Some ''About This System''"
    by (simp_all add: store_eval)
  have rows: "contlet_paragraph variants_example 21 = Some ''Built on MariaDB and Go.''"
    "contlet_image variants_example 21 = Some \<lparr>src = ''/a.png'', alt_text = Some ''A''\<rparr>"
    "contlet_heading variants_example 21 = Some \<lparr>text_content = ''One'', level = 1\<rparr>"
    by (simp_all add: store_eval)
  have none: "contlet_paragraph variants_example 24 = None"
    "contlet_image variants_example 24 = None" "contlet_heading variants_example 24 = None"
    by (simp_all add: store_eval)
  have cpc: "?cpc \<in> set (content_piece_contlets variants_example)" "content_piece_id ?cpc = 1"
    by (simp_all add: store_eval)
  have edges: "length (filter (\<lambda>cpc. content_piece_id cpc = 1)
      (content_piece_contlets variants_example)) = 4"
    by (simp add: store_eval)
  have ids: "map ContletDetail.ID (Contlets (fst (getPieceByID no_faults variants_example 1))) =
      [21, 22, 23, 24]"
    by (simp add: variants_example_read)
  note classified = getPieceByID_variant_priority
    [where f = no_faults and s = variants_example and pid = 1, OF f r]
  then have ok: "snd (getPieceByID no_faults variants_example 1) = None" ..
  from classified have returned: "\<forall>cpc \<in> set (content_piece_contlets variants_example).
      content_piece_id cpc = 1 \<longrightarrow>
       (case contlet_paragraph variants_example (contlet_id cpc) of
          Some text \<Rightarrow>
            \<lparr>ContletDetail.ID = contlet_id cpc, Class = ''paragraph'', TextContent = text,
             Src = [], AltText = [], Level = 0\<rparr>
        | None \<Rightarrow>
           (case contlet_image variants_example (contlet_id cpc) of
              Some img \<Rightarrow>
                \<lparr>ContletDetail.ID = contlet_id cpc, Class = ''image'', TextContent = [],
                 Src = src img, AltText = nullString (alt_text img), Level = 0\<rparr>
            | None \<Rightarrow>
               (case contlet_heading variants_example (contlet_id cpc) of
                  Some h \<Rightarrow>
                    \<lparr>ContletDetail.ID = contlet_id cpc, Class = ''heading'',
                     TextContent = text_content h, Src = [], AltText = [], Level = level h\<rparr>
                | None \<Rightarrow>
                    \<lparr>ContletDetail.ID = contlet_id cpc, Class = ''unknown'', TextContent = [],
                     Src = [], AltText = [], Level = 0\<rparr>)))
         \<in> set (Contlets (fst (getPieceByID no_faults variants_example 1)))"
    by blast
  from bspec [OF returned cpc(1)] cpc(2) none
  have unknown: "\<lparr>ContletDetail.ID = 24, Class = ''unknown'', TextContent = [], Src = [],
      AltText = [], Level = 0\<rparr> \<in> set (Contlets (fst (getPieceByID no_faults variants_example 1)))"
    by simp
  from classified edges
  have len: "length (Contlets (fst (getPieceByID no_faults variants_example 1))) = 4"
    by simp
  obtain c1 c2 c3 c4 where cs: "Contlets (fst (getPieceByID no_faults variants_example 1)) =
      [c1, c2, c3, c4]"
    and id: "ContletDetail.ID c1 = 21" "ContletDetail.ID c2 = 22" "ContletDetail.ID c3 = 23"
      "ContletDetail.ID c4 = 24"
    using ids by (auto simp: map_eq_Cons_conv)
  from classified cs id(1) rows(1) have "c1 = \<lparr>ContletDetail.ID = 21, Class = ''paragraph'',
       TextContent = ''Built on MariaDB and Go.'', Src = [], AltText = [], Level = 0\<rparr>"
    by simp
  with cs id have only: "[cd \<leftarrow> Contlets (fst (getPieceByID no_faults variants_example 1)).
      ContletDetail.ID cd = 21] =
     [\<lparr>ContletDetail.ID = 21, Class = ''paragraph'',
       TextContent = ''Built on MariaDB and Go.'', Src = [], AltText = [], Level = 0\<rparr>]"
    by simp
  from f r(1) rows none ok only unknown len show ?thesis
    by blast
qed

text \<open>
  Claim C5, as it is stated: a contlet id with a row in none of the variant tables, or in
  more than one, makes the read fail with an integrity error. In the store below the
  contlet 24 has no row in any variant table and the contlet 21 has one in each; the read
  of the piece returns no error, with 24 as \<open>unknown\<close> and 21 as a paragraph.
\<close>

theorem integrity_violation_counterexample:
  "contlet_paragraph variants_example 24 = None \<and>
   contlet_image variants_example 24 = None \<and>
   contlet_heading variants_example 24 = None \<and>
   contlet_paragraph variants_example 21 \<noteq> None \<and>
   contlet_image variants_example 21 \<noteq> None \<and>
   contlet_heading variants_example 21 \<noteq> None \<and>
   getPieceByID no_faults variants_example 1 =
     (\<lparr>PieceDetail.ID = 1, Class = ''blog_post'', Title = ''About This System'',
       Contlets =
         [\<lparr>ContletDetail.ID = 21, Class = ''paragraph'',
           TextContent = ''Built on MariaDB and Go.'', Src = [], AltText = [], Level = 0\<rparr>,
          \<lparr>ContletDetail.ID = 22, Class = ''image'', TextContent = [],
           Src = ''/b.png'', AltText = [], Level = 0\<rparr>,
          \<lparr>ContletDetail.ID = 23, Class = ''heading'', TextContent = ''Core Philosophy'',
           Src = [], AltText = [], Level = 1\<rparr>,
          \<lparr>ContletDetail.ID = 24, Class = ''unknown'', TextContent = [],
           Src = [], AltText = [], Level = 0\<rparr>]\<rparr>,
      None)"
  by (simp add: variants_example_read) (simp add: store_eval)

text \<open>
  Claim C5, amended. A contlet id with a row in none of the variant tables, or in more
  than one, raises no error. When the row of the piece exists with a title that is not
  NULL and the store fails neither query, \<open>getPieceByID\<close> returns without error, and for
  every row of \<open>content_piece_contlets\<close> of the piece it returns a contlet with the id of
  that row whose class is the first of paragraph, image, heading with a row for the id,
  and \<open>unknown\<close> when there is none.
\<close>

theorem getPieceByID_no_integrity_error:
  assumes "f 0 = None" and "f 1 = None"
    and "content_piece s pid = Some r" and "cp_title r = Some t"
    and "cpc \<in> set (content_piece_contlets s)" and "content_piece_id cpc = pid"
  shows "snd (getPieceByID f s pid) = None \<and>
    (\<exists>cd \<in> set (Contlets (fst (getPieceByID f s pid))).
       ContletDetail.ID cd = contlet_id cpc \<and>
       ContletDetail.Class cd =
         (if contlet_paragraph s (contlet_id cpc) \<noteq> None then ''paragraph''
          else if contlet_image s (contlet_id cpc) \<noteq> None then ''image''
          else if contlet_heading s (contlet_id cpc) \<noteq> None then ''heading''
          else ''unknown''))"
proof -
  from assms(1-4) have ok: "snd (getPieceByID f s pid) = None"
    by (simp add: getPieceByID_def)
  from assms(5,6) have "cpc \<in> set (piece_edges s pid)"
    by (simp add: piece_edges_set)
  then have "scan_contlet (contlet_join s cpc) \<in> set (Contlets (fst (getPieceByID f s pid)))"
    by (simp add: getPieceByID_contlets [OF ok])
  moreover have "ContletDetail.ID (scan_contlet (contlet_join s cpc)) = contlet_id cpc"
    by (simp add: ID_scan_contlet contlet_join_def Let_def)
  moreover have "ContletDetail.Class (scan_contlet (contlet_join s cpc)) =
         (if contlet_paragraph s (contlet_id cpc) \<noteq> None then ''paragraph''
          else if contlet_image s (contlet_id cpc) \<noteq> None then ''image''
          else if contlet_heading s (contlet_id cpc) \<noteq> None then ''heading''
          else ''unknown'')"
    by (simp add: Class_scan_contlet contlet_join_def Let_def)
  ultimately show ?thesis
    using ok by blast
qed

theorem getPieceByID_no_integrity_error_witness:
  "no_faults 0 = None \<and> no_faults 1 = None \<and>
   content_piece variants_example 1 =
     Some \<lparr>cp_class = ''blog_post'', cp_title = Some ''About This System''\<rparr> \<and>
   \<lparr>content_piece_id = 1, contlet_id = 24, sort_order = 400\<rparr>
     \<in> set (content_piece_contlets variants_example) \<and>
   snd (getPieceByID no_faults variants_example 1) = None \<and>
   (\<exists>cd \<in> set (Contlets (fst (getPieceByID no_faults variants_example 1))).
      ContletDetail.ID cd = 24 \<and> ContletDetail.Class cd = ''unknown'')"
proof -
  let ?r = "\<lparr>cp_class = ''blog_post'', cp_title = Some ''About This System''\<rparr>"
  let ?cpc = "\<lparr>content_piece_id = 1, contlet_id = 24, sort_order = 400\<rparr>"
  have f: "no_faults 0 = None" "no_faults 1 = None"
    by (simp_all add: no_faults_def)
  have r: "content_piece variants_example 1 = Some ?r" "cp_title ?r = Some ''About This System''"
    by (simp_all add: store_eval)
  have cpc: "?cpc \<in> set (content_piece_contlets variants_example)" "content_piece_id ?cpc = 1"
    by (simp_all add: store_eval)
  have none: "contlet_paragraph variants_example 24 = None"
    "contlet_image variants_example 24 = None" "contlet_heading variants_example 24 = None"
    by (simp_all add: store_eval)
  from getPieceByID_no_integrity_error
    [where f = no_faults and s = variants_example and pid = 1 and cpc = ?cpc,
      OF f r cpc] f r cpc none
  show ?thesis
    by simp
qed

lemma insert_entity_rows:
  "insert_entity s = Inr (eid, tx) \<Longrightarrow>
     eid \<notin> set (entity s) \<and> tx = s\<lparr>entity := entity s @ [eid], entity_auto_increment := eid + 1\<rparr>"
  by (auto simp: insert_entity_def Let_def split: if_splits)

lemma insert_content_piece_rows:
  "insert_content_piece tx eid title class = Inr tx' \<Longrightarrow>
     tx' = tx\<lparr>content_piece := (content_piece tx)(eid \<mapsto> \<lparr>cp_class = class, cp_title = Some title\<rparr>)\<rparr>"
  by (auto simp: insert_content_piece_def split: if_splits)

lemma rollback_rows:
  "entity (rollback s tx) = entity s"
  "content_piece (rollback s tx) = content_piece s"
  "(rollback s tx)\<lparr>entity_auto_increment := entity_auto_increment s\<rparr> = s"
  by (simp_all add: rollback_def)

lemmas create_eval =
  createContentPiece_def insert_entity_def insert_content_piece_def rollback_def

text \<open>
  Claim C6. \<open>createContentPiece\<close> allocates the entity and inserts the row of the piece
  in one transaction. Whenever it returns an error, be it from the start of the
  transaction, from either insertion or from the commit, it returns the id 0 and the store
  has the rows it had before, in \<open>entity\<close> and in every other table: only the
  AUTO_INCREMENT counter may have moved. When it returns no error, the id it returns is
  new, the entity and the row of the piece with that id are both in the store.
\<close>

theorem createContentPiece_atomic:
  "(snd (fst (createContentPiece f s title class)) \<noteq> None \<longrightarrow>
      fst (fst (createContentPiece f s title class)) = 0 \<and>
      entity (snd (createContentPiece f s title class)) = entity s \<and>
      content_piece (snd (createContentPiece f s title class)) = content_piece s \<and>
      (snd (createContentPiece f s title class))\<lparr>entity_auto_increment := entity_auto_increment s\<rparr> = s) \<and>
   (snd (fst (createContentPiece f s title class)) = None \<longrightarrow>
      fst (fst (createContentPiece f s title class)) \<notin> set (entity s) \<and>
      entity (snd (createContentPiece f s title class)) =
        entity s @ [fst (fst (createContentPiece f s title class))] \<and>
      content_piece (snd (createContentPiece f s title class)) =
        (content_piece s)(fst (fst (createContentPiece f s title class)) \<mapsto>
           \<lparr>cp_class = class, cp_title = Some title\<rparr>))"
proof (cases "f 0")
  case (Some err)
  then show ?thesis
    by (simp add: createContentPiece_def)
next
  case began: None
  show ?thesis
  proof (cases "case f 1 of Some err \<Rightarrow> Inl err | None \<Rightarrow> insert_entity s")
    case (Inl err)
    with began show ?thesis
      by (simp add: createContentPiece_def rollback_rows)
  next
    case (Inr allocated)
    obtain eid tx where allocated: "allocated = (eid, tx)"
      by (cases allocated)
    with Inr have ins: "insert_entity s = Inr (eid, tx)"
      by (simp split: option.splits)
    note tx = insert_entity_rows [OF ins]
    show ?thesis
    proof (cases "case f 2 of Some err \<Rightarrow> Inl err | None \<Rightarrow> insert_content_piece tx eid title class")
      case (Inl err)
      with began Inr allocated show ?thesis
        by (simp add: createContentPiece_def rollback_rows)
    next
      case piece: (Inr tx')
      then have "insert_content_piece tx eid title class = Inr tx'"
        by (simp split: option.splits)
      note tx' = insert_content_piece_rows [OF this]
      show ?thesis
      proof (cases "f 3")
        case (Some err)
        with began Inr allocated piece show ?thesis
          by (simp add: createContentPiece_def rollback_rows)
      next
        case None
        with began Inr allocated piece have "createContentPiece f s title class = ((eid, None), tx')"
          by (simp add: createContentPiece_def)
        with tx tx' show ?thesis
          by simp
      qed
    qed
  qed
qed

theorem createContentPiece_atomic_witness:
  "snd (fst (createContentPiece (fail_at 2 ''server has gone away'') piece_example
      ''Second'' ''blog_post'')) \<noteq> None \<and>
   entity (snd (createContentPiece (fail_at 2 ''server has gone away'') piece_example
      ''Second'' ''blog_post'')) = [1] \<and>
   snd (fst (createContentPiece (fail_at 3 ''server has gone away'') piece_example
      ''Second'' ''blog_post'')) \<noteq> None \<and>
   entity (snd (createContentPiece (fail_at 3 ''server has gone away'') piece_example
      ''Second'' ''blog_post'')) = [1] \<and>
   fst (createContentPiece no_faults piece_example ''Second'' ''blog_post'') = (2, None) \<and>
   entity (snd (createContentPiece no_faults piece_example ''Second'' ''blog_post'')) = [1, 2] \<and>
   content_piece (snd (createContentPiece no_faults piece_example ''Second'' ''blog_post'')) 2 =
     Some \<lparr>cp_class = ''blog_post'', cp_title = Some ''Second''\<rparr>"
proof -
  have insert_fails: "snd (fst (createContentPiece (fail_at 2 ''server has gone away'')
      piece_example ''Second'' ''blog_post'')) \<noteq> None"
    by (simp add: create_eval store_eval)
  have commit_fails: "snd (fst (createContentPiece (fail_at 3 ''server has gone away'')
      piece_example ''Second'' ''blog_post'')) \<noteq> None"
    by (simp add: create_eval store_eval)
  have created: "fst (createContentPiece no_faults piece_example ''Second'' ''blog_post'') = (2, None)"
    by (simp add: create_eval store_eval)
  have rows: "entity piece_example = [1]"
    by (simp add: store_eval)
  from createContentPiece_atomic
    [of "fail_at 2 ''server has gone away''" piece_example "''Second''" "''blog_post''"]
    createContentPiece_atomic
    [of "fail_at 3 ''server has gone away''" piece_example "''Second''" "''blog_post''"]
    createContentPiece_atomic [of no_faults piece_example "''Second''" "''blog_post''"]
    insert_fails commit_fails created rows
  show ?thesis
    by simp
qed

text \<open>
  Claim C8, as it is stated: an update of a content piece whose id has no row fails with
  a not-found error. The store below has no content piece 42, and the update of 42
  returns no error and the store as it was.
\<close>

theorem update_not_found_counterexample:
  "content_piece piece_example 42 = None \<and>
   updateContentPiece no_faults piece_example 42 ''New title'' ''blog_post'' = (None, piece_example)"
  by (simp add: updateContentPiece_def store_eval)

text \<open>
  Claim C8, amended. For an id with no row in \<open>content_piece\<close>, \<open>updateContentPiece\<close>
  leaves the store as it was and reports success; the one error it can return is the
  error of the store when the statement itself fails.
\<close>

theorem updateContentPiece_missing_row:
  "content_piece s pid = None \<Longrightarrow>
     updateContentPiece f s pid title class =
       (case f 0 of None \<Rightarrow> (None, s) | Some err \<Rightarrow> (Some (UpdatePieceFailed pid err), s))"
  by (simp add: updateContentPiece_def split: option.splits)

theorem updateContentPiece_missing_row_witness:
  "content_piece piece_example 42 = None \<and>
   updateContentPiece no_faults piece_example 42 ''New title'' ''blog_post'' = (None, piece_example) \<and>
   updateContentPiece (fail_at 0 ''server has gone away'') piece_example 42 ''New title'' ''blog_post'' =
     (Some (UpdatePieceFailed 42 ''server has gone away''), piece_example)"
proof -
  have missing: "content_piece piece_example 42 = None"
    by (simp add: store_eval)
  from updateContentPiece_missing_row [OF missing, of no_faults "''New title''" "''blog_post''"]
    updateContentPiece_missing_row
      [OF missing, of "fail_at 0 ''server has gone away''" "''New title''" "''blog_post''"]
    missing
  show ?thesis
    by (simp add: no_faults_def fail_at_def)
qed

section \<open>Properties of the list of tags\<close>

lemma scan_tags_append:
  "scan_tags rows acc = acc @ map (\<lambda>(i, v, n). \<lparr>Tag.ID = i, Value = v, TaxonomyName = n\<rparr>) rows"
  by (induction rows arbitrary: acc) auto

lemma getAllTags_rows:
  "f 0 = None \<Longrightarrow>
   fst (getAllTags coll f s) =
     map (\<lambda>(t, x). \<lparr>Tag.ID = t_id t, Value = t_value t, TaxonomyName = name x\<rparr>)
       (sort_key (\<lambda>(t, x). (coll (name x), coll (t_value t))) (tag_join s))"
  by (simp add: getAllTags_def scan_tags_append tags_query_def case_prod_unfold comp_def)

lemma set_tag_join:
  "set (tag_join s) = {(t, x). t \<in> set (tag s) \<and> x \<in> set (taxonomy s) \<and> taxonomy_id t = tx_id x}"
  by (auto simp: tag_join_def)

lemma tags_example_result:
  "fst (getAllTags binary_collation no_faults tags_example) =
     [\<lparr>Tag.ID = 4, Value = ''Beginners'', TaxonomyName = ''Audience''\<rparr>,
      \<lparr>Tag.ID = 5, Value = ''Go'', TaxonomyName = ''Technology''\<rparr>,
      \<lparr>Tag.ID = 3, Value = ''Rust'', TaxonomyName = ''Technology''\<rparr>]"
  by (simp add: getAllTags_def tags_query_def tag_join_def store_eval binary_collation_def)

text \<open>
  Claim C9. When the query goes through, \<open>getAllTags\<close> returns no error and a list that
  is sorted by the taxonomy name and, for equal names, by the value of the tag, both
  compared by the collation of the store. The list holds a tag for every pair of a row of
  \<open>tag\<close> and the row of \<open>taxonomy\<close> it refers to, and nothing else.
\<close>

theorem getAllTags_ordered:
  "f 0 = None \<Longrightarrow>
     snd (getAllTags coll f s) = None \<and>
     sorted (map (\<lambda>t. (coll (TaxonomyName t), coll (Value t))) (fst (getAllTags coll f s))) \<and>
     set (fst (getAllTags coll f s)) =
       {\<lparr>Tag.ID = t_id t, Value = t_value t, TaxonomyName = name x\<rparr> | t x.
          t \<in> set (tag s) \<and> x \<in> set (taxonomy s) \<and> taxonomy_id t = tx_id x} \<and>
     length (fst (getAllTags coll f s)) = length (tag_join s)"
proof (intro conjI)
  assume f: "f 0 = None"
  let ?key = "\<lambda>(t, x). (coll (name x), coll (t_value t))"
  show "snd (getAllTags coll f s) = None"
    using f by (simp add: getAllTags_def)
  have "map (\<lambda>t. (coll (TaxonomyName t), coll (Value t))) (fst (getAllTags coll f s)) =
      map ?key (sort_key ?key (tag_join s))"
    by (simp add: getAllTags_rows [where f = f, OF f] case_prod_unfold comp_def)
  then show "sorted (map (\<lambda>t. (coll (TaxonomyName t), coll (Value t))) (fst (getAllTags coll f s)))"
    by (simp only: sorted_sort_key)
  show "set (fst (getAllTags coll f s)) =
       {\<lparr>Tag.ID = t_id t, Value = t_value t, TaxonomyName = name x\<rparr> | t x.
          t \<in> set (tag s) \<and> x \<in> set (taxonomy s) \<and> taxonomy_id t = tx_id x}"
    by (auto simp: getAllTags_rows [where f = f, OF f] set_tag_join image_iff)
  show "length (fst (getAllTags coll f s)) = length (tag_join s)"
    by (simp add: getAllTags_rows [where f = f, OF f])
qed

theorem getAllTags_ordered_witness:
  "no_faults 0 = None \<and>
   snd (getAllTags binary_collation no_faults tags_example) = None \<and>
   map (\<lambda>t. (TaxonomyName t, Value t)) (fst (getAllTags binary_collation no_faults tags_example)) =
     [(''Audience'', ''Beginners''), (''Technology'', ''Go''), (''Technology'', ''Rust'')] \<and>
   sorted (map (\<lambda>t. (binary_collation (TaxonomyName t), binary_collation (Value t)))
     (fst (getAllTags binary_collation no_faults tags_example)))"
proof -
  have f: "no_faults 0 = None"
    by (simp add: no_faults_def)
  from getAllTags_ordered [where f = no_faults and coll = binary_collation and s = tags_example, OF f] f
  show ?thesis
    by (simp add: tags_example_result)
qed

end
